theory Spec2Isabelle
  imports Main "HOL-Library.Char_ord" "HOL-Library.List_Lexorder"
begin

section \<open>Errors\<close>

text \<open>
  Every exception the modelled functions can raise is a value.
  \<^item> \<open>ValueError m\<close>: a \<open>ValueError\<close> the repository raises itself, with its message \<open>m\<close>;
  \<^item> \<open>InvalidLiteral s\<close>: the \<open>ValueError\<close> of \<open>int(s)\<close> on a text that is no integer;
  \<^item> \<open>UnpackError n\<close>: the \<open>ValueError\<close> of unpacking \<open>n\<close> values into two names;
  \<^item> \<open>TypeError p\<close>: a call that does not fit the callee's signature, \<open>p\<close> the parameter
    that is missing or unknown;
  \<^item> \<open>IndexError\<close>: a list index out of range;
  \<^item> \<open>ColumnNotFoundError n\<close>, \<open>DuplicateError n\<close>: the dataframe library found no column
    \<open>n\<close>, or two output columns of that name;
  \<^item> \<open>ItemError n\<close>: the \<open>ValueError\<close> of \<open>item()\<close> on a one-column table of \<open>n \<noteq> 1\<close> rows.
\<close>

datatype error =
    ValueError string
  | InvalidLiteral string
  | UnpackError nat
  | TypeError string
  | IndexError
  | ColumnNotFoundError string
  | DuplicateError string
  | ItemError nat

section \<open>Python strings and integers\<close>

text \<open>
  A Python string is a list of code points; the model has the code points below 256, one
  \<open>char\<close> each. Among them \<open>str.isnumeric\<close> holds of the ten digits and of the
  superscripts and fractions of Latin-1, which \<open>int\<close> refuses. \<open>int\<close> strips white space,
  takes one sign, and reads digits that single underscores may separate.
\<close>

definition is_digit :: "char \<Rightarrow> bool" where
  "is_digit c \<longleftrightarrow> c \<in> set ''0123456789''"

definition py_isnumeric_char :: "char \<Rightarrow> bool" where
  "py_isnumeric_char c \<longleftrightarrow>
     is_digit c \<or> c \<in> set [CHR 0xB2, CHR 0xB3, CHR 0xB9, CHR 0xBC, CHR 0xBD, CHR 0xBE]"

definition py_isnumeric :: "string \<Rightarrow> bool" where
  "py_isnumeric s \<longleftrightarrow> s \<noteq> [] \<and> list_all py_isnumeric_char s"

definition py_isspace :: "char \<Rightarrow> bool" where
  "py_isspace c \<longleftrightarrow>
     c \<in> set [CHR 0x09, CHR 0x0A, CHR 0x0B, CHR 0x0C, CHR 0x0D, CHR 0x1C, CHR 0x1D, CHR 0x1E,
              CHR 0x1F, CHR 0x20, CHR 0x85, CHR 0xA0]"

definition py_strip :: "string \<Rightarrow> string" where
  "py_strip s = rev (dropWhile py_isspace (rev (dropWhile py_isspace s)))"

fun digits_ok :: "string \<Rightarrow> bool" where
  "digits_ok [] = False"
| "digits_ok [c] = is_digit c"
| "digits_ok (c # d # cs) =
     (is_digit c \<and> (if d = CHR ''_'' then digits_ok cs else digits_ok (d # cs)))"

definition digit_val :: "char \<Rightarrow> nat" where
  "digit_val c = of_char c - 48"

definition digits_value :: "string \<Rightarrow> nat" where
  "digits_value s = foldl (\<lambda>acc c. 10 * acc + digit_val c) 0 (filter is_digit s)"

definition py_int :: "string \<Rightarrow> error + int" where
  "py_int s =
     (let t = py_strip s;
          negative = (case t of [] \<Rightarrow> False | c # _ \<Rightarrow> c = CHR ''-'');
          body = (case t of [] \<Rightarrow> [] | c # r \<Rightarrow> if c = CHR ''-'' \<or> c = CHR ''+'' then r else t)
      in if digits_ok body
         then Inr (if negative then - int (digits_value body) else int (digits_value body))
         else Inl (InvalidLiteral s))"

text \<open>\<open>str(n)\<close> of an integer, as the f-strings of the messages print it.\<close>

definition digit_char :: "nat \<Rightarrow> char" where
  "digit_char d = ''0123456789'' ! d"

fun str_nat :: "nat \<Rightarrow> string" where
  "str_nat n = (if n < 10 then [digit_char n] else str_nat (n div 10) @ [digit_char (n mod 10)])"

definition str_int :: "int \<Rightarrow> string" where
  "str_int i = (if i < 0 then CHR ''-'' # str_nat (nat (- i)) else str_nat (nat i))"

text \<open>List indexing and slicing with Python's reading of negative and oversized bounds.\<close>

definition py_index :: "'a list \<Rightarrow> int \<Rightarrow> error + 'a" where
  "py_index xs i =
     (if i < - int (length xs) \<or> int (length xs) \<le> i then Inl IndexError
      else if i < 0 then Inr (xs ! nat (int (length xs) + i))
      else Inr (xs ! nat i))"

definition slice_bound :: "nat \<Rightarrow> int \<Rightarrow> nat" where
  "slice_bound n i = (if i < 0 then nat (max 0 (int n + i)) else min (nat i) n)"

definition py_slice :: "'a list \<Rightarrow> int \<Rightarrow> int option \<Rightarrow> 'a list" where
  "py_slice xs start stop =
     (let n = length xs;
          lo = slice_bound n start;
          hi = (case stop of None \<Rightarrow> n | Some e \<Rightarrow> slice_bound n e)
      in take (hi - lo) (drop lo xs))"

text \<open>\<open>s.split(sep)\<close> for a separator of one character.\<close>

fun split_on :: "char \<Rightarrow> string \<Rightarrow> string list" where
  "split_on sep [] = [[]]"
| "split_on sep (c # cs) =
     (if c = sep then [] # split_on sep cs
      else (case split_on sep cs of [] \<Rightarrow> [[c]] | p # ps \<Rightarrow> (c # p) # ps))"

section \<open>Tables\<close>

text \<open>
  A table is an ordered list of named columns; a cell is \<open>None\<close> (null) or a value. The
  dataframe library stores tables by column, and so does the model. A table without columns
  has no rows. In a well-formed table the column names are distinct and all columns have
  the height of the table. An eager \<open>DataFrame\<close> and a \<open>LazyFrame\<close> give the same results and
  raise the same errors in the functions below, which collect what they need; the model
  has one kind of table, and the branches on \<open>isinstance\<close> are one branch.
\<close>

type_synonym 'v column = "'v option list"
type_synonym 'v frame = "(string \<times> 'v column) list"

definition names :: "'v frame \<Rightarrow> string list" where
  "names df = map fst df"

definition height :: "'v frame \<Rightarrow> nat" where
  "height df = (case df of [] \<Rightarrow> 0 | (_, c) # _ \<Rightarrow> length c)"

definition wf_frame :: "'v frame \<Rightarrow> bool" where
  "wf_frame df \<longleftrightarrow> distinct (names df) \<and> list_all (\<lambda>(n, c). length c = height df) df"

subsection \<open>Column selection\<close>

text \<open>
  \<open>select\<close> takes expressions: a column name, or \<open>pl.all().exclude(...)\<close>, which stands for
  every column whose name is not listed. A name that is not a column raises
  \<open>ColumnNotFoundError\<close>; two output columns of one name raise \<open>DuplicateError\<close>. Names are
  taken literally.
\<close>

datatype selector = Col string | AllExclude "string list"

fun expand :: "'v frame \<Rightarrow> selector \<Rightarrow> error + 'v frame" where
  "expand df (Col n) =
     (case map_of df n of None \<Rightarrow> Inl (ColumnNotFoundError n) | Some c \<Rightarrow> Inr [(n, c)])"
| "expand df (AllExclude ns) = Inr (filter (\<lambda>(n, c). n \<notin> set ns) df)"

fun expand_all :: "'v frame \<Rightarrow> selector list \<Rightarrow> error + 'v frame" where
  "expand_all df [] = Inr []"
| "expand_all df (s # ss) =
     (case expand df s of
        Inl e \<Rightarrow> Inl e
      | Inr cs \<Rightarrow> (case expand_all df ss of Inl e \<Rightarrow> Inl e | Inr ds \<Rightarrow> Inr (cs @ ds)))"

fun first_duplicate :: "string list \<Rightarrow> string option" where
  "first_duplicate [] = None"
| "first_duplicate (x # xs) = (if x \<in> set xs then Some x else first_duplicate xs)"

definition select :: "'v frame \<Rightarrow> selector list \<Rightarrow> error + 'v frame" where
  "select df sels =
     (case expand_all df sels of
        Inl e \<Rightarrow> Inl e
      | Inr out \<Rightarrow>
          (case first_duplicate (names out) of
             Some n \<Rightarrow> Inl (DuplicateError n)
           | None \<Rightarrow> Inr out))"

text \<open>
  \<open>Expr.exclude(columns, *more_columns)\<close> has one required positional parameter. A call
  \<open>exclude(*xs)\<close> that unpacks a list hands over the elements of \<open>xs\<close> as positional
  arguments, so an empty list is a call without arguments, which Python refuses.
\<close>

definition exclude_unpacked :: "string list \<Rightarrow> error + selector" where
  "exclude_unpacked xs =
     (case xs of
        [] \<Rightarrow> Inl (TypeError ''columns'')
      | _ # _ \<Rightarrow> Inr (AllExclude xs))"

section \<open>PhewasFrame\<close>

subsection \<open>handle_sex_specific_codes\<close>

text \<open>
  The lists \<open>male_specific_codes\<close> and \<open>female_specific_codes\<close> come from a module of
  constants; the model takes them as parameters.
\<close>

definition handle_sex_specific_codes ::
  "string list \<Rightarrow> string list \<Rightarrow> 'v frame \<Rightarrow> bool \<Rightarrow> error + 'v frame" where
  "handle_sex_specific_codes male_specific_codes female_specific_codes df drop_flag =
     (let col_names = names df;
          male_codes_in_df = filter (\<lambda>c. c \<in> set male_specific_codes) col_names;
          female_codes_in_df = filter (\<lambda>c. c \<in> set female_specific_codes) col_names
      in if drop_flag then
           (case exclude_unpacked (male_codes_in_df @ female_codes_in_df) of
              Inl e \<Rightarrow> Inl e
            | Inr sel \<Rightarrow> select df [sel])
         else Inr df)"

subsection \<open>handle_missing\<close>

text \<open>
  \<open>method\<close> is \<open>None\<close> or a string. \<open>drop_nulls(subset=...)\<close> computes which rows have no
  null in any column of the subset and keeps those rows of every column; a name of the
  subset that is no column raises \<open>ColumnNotFoundError\<close>. The second component of the result
  holds the lines that were printed.
\<close>

definition valid_strategies :: "string option list" where
  "valid_strategies = [None, Some ''forward'', Some ''backward'', Some ''min'', Some ''max'',
     Some ''mean'', Some ''zero'', Some ''one'']"

definition null_free_row :: "'v frame \<Rightarrow> string list \<Rightarrow> nat \<Rightarrow> bool" where
  "null_free_row df subset_names i =
     list_all (\<lambda>p. case map_of df p of None \<Rightarrow> True | Some c \<Rightarrow> c ! i \<noteq> None) subset_names"

definition keep_rows :: "bool list \<Rightarrow> 'v column \<Rightarrow> 'v column" where
  "keep_rows keep c = map fst (filter snd (zip c keep))"

definition drop_nulls :: "'v frame \<Rightarrow> string list \<Rightarrow> error + 'v frame" where
  "drop_nulls df subset_names =
     (case find (\<lambda>p. p \<notin> set (names df)) subset_names of
        Some p \<Rightarrow> Inl (ColumnNotFoundError p)
      | None \<Rightarrow>
          (let keep = map (null_free_row df subset_names) [0..<height df]
           in Inr (map (\<lambda>(n, c). (n, keep_rows keep c)) df)))"

text \<open>
  The library's \<open>fill_null(value=None, strategy=None, limit=None, *, matches_supertype=True)\<close>
  has no parameter \<open>subset\<close>: the call \<open>fill_null(subset=predictors, strategy=method)\<close> is
  refused with a \<open>TypeError\<close> before any cell is read.
\<close>

definition fill_null_subset :: "'v frame \<Rightarrow> string list \<Rightarrow> string \<Rightarrow> error + 'v frame" where
  "fill_null_subset df subset_names strategy = Inl (TypeError ''subset'')"

definition handle_missing ::
  "'v frame \<Rightarrow> string list \<Rightarrow> string option \<Rightarrow> error + ('v frame \<times> string list)" where
  "handle_missing df predictors method =
     (if method \<notin> set valid_strategies then
        Inl (ValueError (''Unknown method '' @ [CHR 0x27] @ the method @ [CHR 0x27]
               @ ''. Valid strategies are: [None, 'forward', 'backward', 'min', 'max', 'mean', 'zero', 'one']''))
      else if method = None then
        (case drop_nulls df predictors of
           Inl e \<Rightarrow> Inl e
         | Inr new_df \<Rightarrow>
             Inr (new_df,
                  if height new_df \<noteq> height df
                  then [''Dropped '' @ str_nat (height df - height new_df)
                          @ '' rows with missing values.'']
                  else []))
      else
        (case fill_null_subset df predictors (the method) of
           Inl e \<Rightarrow> Inl e
         | Inr new_df \<Rightarrow> Inr (new_df, [])))"

subsection \<open>filter_by_count\<close>




subsection \<open>Example tables\<close>

text \<open>
  A table of three samples with two independent columns and one dependent column; only the
  third sample has no null among the independent columns.
\<close>

definition example_table :: "int frame" where
  "example_table =
     [(''age'', [Some 31, None, Some 58]), (''bmi'', [None, Some 22, Some 27]),
      (''D'', [None, None, Some 1])]"


section \<open>polars_firth_regression\<close>

text \<open>
  The result dictionary is a record. A field holds \<open>NaN\<close>, the \<open>float("nan")\<close> it starts
  with, or a value; the floating-point numbers of the statistics are values of a type \<open>'f\<close>
  that the model leaves open, since it computes with none of them.
\<close>

datatype 'a stat = NaN | Stat 'a

record 'f output_struct =
  pval :: "'f stat"
  beta :: "'f stat"
  se :: "'f stat"
  OR :: "'f stat"
  ci_low :: "'f stat"
  ci_high :: "'f stat"
  cases :: "int stat"
  controls :: "int stat"
  total_n :: "int stat"
  failed_reason :: string

text \<open>
  The unnested struct column of one group: the text columns \<open>dependent\<close> and \<open>predictor\<close>,
  the columns of the independent variables, with cells of a type \<open>'x\<close>, and the columns that
  can serve as response, which hold the integers 0 and 1 without nulls (the rows with a null
  response were dropped when the table was melted).
\<close>

record 'x regframe =
  dependent_column :: "string list"
  predictor_column :: "string list"
  feature_columns :: "'x frame"
  response_columns :: "(string \<times> int list) list"

text \<open>
  What the function reads from a fitted model: \<open>pvals_[0]\<close>, \<open>coef_[0]\<close>, \<open>bse_[0]\<close>,
  \<open>ci_[0][0]\<close> and \<open>ci_[0][1]\<close>.
\<close>

record 'f fitted =
  pvals_0 :: 'f
  coef_0 :: 'f
  bse_0 :: 'f
  ci_0_0 :: 'f
  ci_0_1 :: 'f

text \<open>The levels at which the function logs.\<close>

datatype level = WARNING | ERROR

text \<open>\<open>item()\<close> of a table of one column, given as the list of its cells.\<close>

definition item :: "'a list \<Rightarrow> error + 'a" where
  "item xs = (case xs of [x] \<Rightarrow> Inr x | _ \<Rightarrow> Inl (ItemError (length xs)))"

text \<open>
  Three collaborators are parameters of the model:
  \<^item> \<open>check_grouped_independents_for_constants\<close>, which returns the names of the independent
    columns that are not constant within the group, or raises;
  \<^item> \<open>firth_fit\<close>, which stands for everything the \<open>try\<close> block asks of the statistics
    library: building \<open>FirthLogisticRegression(max_iter=1000, test_vars=0)\<close>, fitting it to
    \<open>X\<close> and \<open>y\<close>, and reading the fitted attributes. It returns them, or \<open>Inl msg\<close> when
    any of that raised an \<open>Exception\<close> \<open>e\<close> with \<open>str(e) = msg\<close>;
  \<^item> \<open>exp_e\<close>, the floating-point \<open>np.e ** x\<close>.

  The result is an error that escapes the function, or the record it returns together with
  the messages it logged. The local variables \<open>cases\<close> and \<open>controls\<close> of the source are
  \<open>n_cases\<close> and \<open>n_controls\<close> here, the plain names being the fields of the record.
  \<open>min_cases\<close> is a parameter as in the source, where the test that read it is commented
  out.
\<close>

definition polars_firth_regression ::
  "('x frame \<Rightarrow> string list \<Rightarrow> string \<Rightarrow> error + string list) \<Rightarrow>
   ('x frame \<Rightarrow> int list \<Rightarrow> string + 'f fitted) \<Rightarrow> ('f \<Rightarrow> 'f) \<Rightarrow>
   'x regframe \<Rightarrow> string list \<Rightarrow> string \<Rightarrow> int \<Rightarrow>
   error + ('f output_struct \<times> (level \<times> string) list)" where
  "polars_firth_regression check_grouped_independents_for_constants firth_fit exp_e
       struct_col independents dependent_values min_cases =
     (let output_struct = \<lparr>pval = NaN, beta = NaN, se = NaN, OR = NaN, ci_low = NaN,
            ci_high = NaN, cases = NaN, controls = NaN, total_n = NaN,
            failed_reason = ''nan''\<rparr>;
          regframe = struct_col
      in case item (remdups (dependent_column regframe)) of
           Inl e \<Rightarrow> Inl e
         | Inr dependent \<Rightarrow>
      (case item (remdups (predictor_column regframe)) of
           Inl e \<Rightarrow> Inl e
         | Inr predictor \<Rightarrow>
      (case select (feature_columns regframe) (map Col independents) of
           Inl e \<Rightarrow> Inl e
         | Inr X \<Rightarrow>
      (case check_grouped_independents_for_constants X independents dependent of
           Inl e \<Rightarrow> Inl e
         | Inr non_consts \<Rightarrow>
      (case select X (map Col non_consts) of
           Inl e \<Rightarrow> Inl e
         | Inr X \<Rightarrow>
      (case independents of
           [] \<Rightarrow> Inl IndexError
         | primary # _ \<Rightarrow>
             if primary \<notin> set (names X) then
               Inr (output_struct\<lparr>failed_reason := ''Predictor removed due to constant values''\<rparr>,
                    [(WARNING, ''Predictor '' @ predictor
                        @ '' was removed due to constant values. Skipping analysis.'')])
             else
               (case map_of (response_columns regframe) dependent_values of
                  None \<Rightarrow> Inl (ColumnNotFoundError dependent_values)
                | Some y \<Rightarrow>
                    (let n_cases = sum_list y;
                         total_counts = int (length y);
                         n_controls = total_counts - n_cases;
                         output_struct = output_struct\<lparr>cases := Stat n_cases,
                           controls := Stat n_controls, total_n := Stat total_counts\<rparr>
                     in case firth_fit X y of
                          Inr fl \<Rightarrow>
                            Inr (output_struct\<lparr>pval := Stat (pvals_0 fl),
                                   beta := Stat (coef_0 fl), se := Stat (bse_0 fl),
                                   OR := Stat (exp_e (coef_0 fl)),
                                   ci_low := Stat (ci_0_0 fl), ci_high := Stat (ci_0_1 fl)\<rparr>, [])
                        | Inl e \<Rightarrow>
                            Inr (output_struct\<lparr>failed_reason := e\<rparr>,
                                 [(ERROR, ''Error in Firth regression for '' @ dependent
                                     @ '': '' @ e)])))))))))"

text \<open>
  Modelled from the spec: \<open>check_grouped_independents_for_constants\<close>, the group-level
  re-check of the independent columns for constants, lives in a module that is not part of
  the sources at hand. \<open>polars_firth_regression\<close> takes it as a parameter; where a concrete
  check is needed, this one keeps the independent columns that hold more than one distinct
  non-null value, a column with a single distinct non-null value being constant.
\<close>

definition nonconstant_columns :: "'x frame \<Rightarrow> string list \<Rightarrow> string \<Rightarrow> error + string list" where
  "nonconstant_columns X independents dependent =
     Inr (filter (\<lambda>n. case map_of X n of
                          None \<Rightarrow> False
                        | Some c \<Rightarrow> length (remdups (filter (\<lambda>v. v \<noteq> None) c)) > 1)
            independents)"


definition constant_group :: "int regframe" where
  "constant_group =
     \<lparr>dependent_column = [''D'', ''D'', ''D''], predictor_column = [''P'', ''P'', ''P''],
      feature_columns = [(''P'', [Some 2, Some 2, Some 2]), (''age'', [Some 30, Some 41, Some 52])],
      response_columns = [(''dependent_value'', [1, 0, 1])]\<rparr>"

section \<open>Column index expressions\<close>

text \<open>
  \<open>_match_columns_to_indices\<close> (an identifier here cannot start with an underscore). The
  loop over the comma-separated parts extends \<open>output_columns\<close> by what each part yields and
  stops at the first part that raises; \<open>extend_all\<close> does so on the list of the parts'
  results.
\<close>

fun extend_all :: "(error + 'a list) list \<Rightarrow> error + 'a list" where
  "extend_all [] = Inr []"
| "extend_all (r # rs) =
     (case r of
        Inl e \<Rightarrow> Inl e
      | Inr cols \<Rightarrow> (case extend_all rs of Inl e \<Rightarrow> Inl e | Inr out \<Rightarrow> Inr (cols @ out)))"

text \<open>
  The function calls itself on the parts of an expression that holds a comma. Each part is
  shorter than the expression, which is why the recursion ends.
\<close>

lemma split_on_not_Nil [simp]: "split_on sep s \<noteq> []"
  by (induction s) (auto split: list.splits)

lemma split_on_shorter:
  "p \<in> set (split_on sep s) \<Longrightarrow> length p \<le> length s"
proof (induction s arbitrary: p)
  case Nil
  then show ?case by simp
next
  case (Cons c cs)
  then show ?case
    by (cases "split_on sep cs") (auto split: if_splits, fastforce+)
qed

lemma split_on_strictly_shorter:
  "sep \<in> set s \<Longrightarrow> p \<in> set (split_on sep s) \<Longrightarrow> length p < length s"
proof (induction s arbitrary: p)
  case Nil
  then show ?case by simp
next
  case (Cons c cs)
  show ?case
  proof (cases "c = sep")
    case True
    with Cons.prems show ?thesis
      using split_on_shorter [of _ sep cs] by (auto simp: less_Suc_eq_le)
  next
    case False
    with Cons.prems have mem: "sep \<in> set cs" by simp
    from False Cons.prems obtain q qs where q: "split_on sep cs = q # qs"
      and p: "p = c # q \<or> p \<in> set qs"
      by (auto split: list.splits)
    from p show ?thesis
    proof
      assume "p = c # q"
      with Cons.IH [OF mem, of q] q show ?thesis by simp
    next
      assume "p \<in> set qs"
      with Cons.IH [OF mem, of p] q show ?thesis by simp
    qed
  qed
qed

function match_columns_to_indices :: "string \<Rightarrow> string list \<Rightarrow> error + string list" where
  "match_columns_to_indices indices col_names =
     (if CHR '','' \<in> set indices then
        extend_all (map (\<lambda>split. match_columns_to_indices split col_names)
                        (filter (\<lambda>split. split \<noteq> []) (split_on CHR '','' indices)))
      else if py_isnumeric indices then
        (case py_int indices of
           Inl e \<Rightarrow> Inl e
         | Inr index \<Rightarrow>
             if index \<ge> int (length col_names) then
               Inl (ValueError (''Index '' @ str_int index @ '' out of range for ''
                      @ str_nat (length col_names) @ '' columns in input file.''))
             else (case py_index col_names index of Inl e \<Rightarrow> Inl e | Inr c \<Rightarrow> Inr [c]))
      else if CHR ''-'' \<in> set indices then
        (case split_on CHR ''-'' indices of
           [start, end] \<Rightarrow>
             (case py_int start of
                Inl e \<Rightarrow> Inl e
              | Inr start_idx \<Rightarrow>
                  if start_idx \<ge> int (length col_names) then
                    Inl (ValueError (''Start index '' @ str_int start_idx
                           @ '' out of range for input file column indices. ''
                           @ str_nat (length col_names) @ '' columns found.''))
                  else if end \<noteq> [] then
                    (case py_int end of
                       Inl e \<Rightarrow> Inl e
                     | Inr end_idx \<Rightarrow>
                         if end_idx \<ge> int (length col_names) then
                           Inl (ValueError (''End index '' @ end @ '' out of range for ''
                                  @ str_nat (length col_names)
                                  @ '' columns. If you want to use all remaining columns, use ''
                                  @ str_int start_idx @ ''-.''))
                         else Inr (py_slice col_names start_idx (Some end_idx)))
                  else Inr (py_slice col_names start_idx None))
         | parts \<Rightarrow> Inl (UnpackError (length parts)))
      else Inl (ValueError (''Invalid index format, must use '-' for a range: '' @ indices)))"
  by pat_completeness auto
termination
  by (relation "measure (\<lambda>(indices, col_names). length indices)")
     (auto dest: split_on_strictly_shorter)

declare match_columns_to_indices.simps [simp del]
declare str_nat.simps [simp del]

text \<open>Comma-separated index expressions, as a user writes them.\<close>

fun join_commas :: "string list \<Rightarrow> string" where
  "join_commas [] = []"
| "join_commas [p] = p"
| "join_commas (p # q # ps) = p @ CHR '','' # join_commas (q # ps)"

section \<open>Properties of handle_sex_specific_codes\<close>

text \<open>
  C9. With \<open>drop = False\<close> (the default) \<open>handle_sex_specific_codes\<close> is the identity on
  every table, whatever the code lists hold: no column is removed and no observation of a
  sex-mismatched sample is excluded.
\<close>

theorem handle_sex_specific_codes_keep_identity:
  "handle_sex_specific_codes male_specific_codes female_specific_codes df False = Inr df"
  by (simp add: handle_sex_specific_codes_def)

section \<open>Properties of the index-expression parser\<close>

subsection \<open>Decimal numerals\<close>

lemma is_digit_digit_char: "d < 10 \<Longrightarrow> is_digit (digit_char d)"
proof -
  assume "d < 10"
  then have "d \<in> {0, 1, 2, 3, 4, 5, 6, 7, 8, 9}" by auto
  then show ?thesis by (elim insertE emptyE) (simp_all add: is_digit_def digit_char_def)
qed

lemma digit_val_digit_char: "d < 10 \<Longrightarrow> digit_val (digit_char d) = d"
proof -
  assume "d < 10"
  then have "d \<in> {0, 1, 2, 3, 4, 5, 6, 7, 8, 9}" by auto
  then show ?thesis by (elim insertE emptyE) (simp_all add: digit_val_def digit_char_def)
qed

lemma str_nat_digits: "list_all is_digit (str_nat n)"
proof (induction n rule: str_nat.induct)
  case (1 n)
  show ?case
  proof (cases "n < 10")
    case True
    then show ?thesis by (subst str_nat.simps) (simp add: is_digit_digit_char)
  next
    case False
    then have "list_all is_digit (str_nat (n div 10))" using 1 by simp
    moreover have "is_digit (digit_char (n mod 10))" by (simp add: is_digit_digit_char)
    ultimately show ?thesis using False by (subst str_nat.simps) simp
  qed
qed

lemma str_nat_not_Nil: "str_nat n \<noteq> []"
  by (subst str_nat.simps) simp

lemma digits_value_snoc:
  "is_digit c \<Longrightarrow> digits_value (s @ [c]) = 10 * digits_value s + digit_val c"
  by (simp add: digits_value_def)

lemma digits_value_str_nat: "digits_value (str_nat n) = n"
proof (induction n rule: str_nat.induct)
  case (1 n)
  show ?case
  proof (cases "n < 10")
    case True
    then show ?thesis
      by (subst str_nat.simps)
         (simp add: digits_value_def is_digit_digit_char digit_val_digit_char)
  next
    case False
    then have "digits_value (str_nat (n div 10)) = n div 10" using 1 by simp
    then show ?thesis using False
      by (subst str_nat.simps)
         (simp add: digits_value_snoc is_digit_digit_char digit_val_digit_char)
  qed
qed

lemma is_digit_facts:
  assumes "is_digit c"
  shows "\<not> py_isspace c" and "c \<noteq> CHR ''_''" and "c \<noteq> CHR ''-''" and "c \<noteq> CHR ''+''"
    and "c \<noteq> CHR '',''" and "py_isnumeric_char c"
  using assms unfolding is_digit_def py_isnumeric_char_def py_isspace_def by auto

lemma is_digit_not_space: "is_digit c \<Longrightarrow> \<not> py_isspace c"
  by (rule is_digit_facts)

lemma digits_strip:
  assumes "list_all is_digit s"
  shows "py_strip s = s"
proof (cases s)
  case Nil
  then show ?thesis by (simp add: py_strip_def)
next
  case (Cons c cs)
  then have front: "dropWhile py_isspace s = s"
    using assms by (simp add: is_digit_not_space)
  have "rev s \<noteq> []" using Cons by simp
  then obtain d ds where r: "rev s = d # ds" by (cases "rev s") auto
  then have "d \<in> set s" by (metis list.set_intros(1) set_rev)
  then have "is_digit d" using assms by (simp add: list_all_iff)
  then have "dropWhile py_isspace (rev s) = rev s"
    using r by (simp add: is_digit_not_space)
  with front show ?thesis by (simp add: py_strip_def)
qed

lemma digits_ok_all_digits: "s \<noteq> [] \<Longrightarrow> list_all is_digit s \<Longrightarrow> digits_ok s"
  by (induction s rule: digits_ok.induct) (auto simp: is_digit_facts)

lemma py_int_digits:
  assumes "s \<noteq> []" and "list_all is_digit s"
  shows "py_int s = Inr (int (digits_value s))"
proof -
  obtain c cs where s: "s = c # cs" using assms(1) by (cases s) auto
  then have "is_digit c" using assms(2) by simp
  then have "c \<noteq> CHR ''-''" and "c \<noteq> CHR ''+''" by (auto simp: is_digit_facts)
  then show ?thesis
    using s digits_strip [OF assms(2)] digits_ok_all_digits [OF assms]
    by (simp add: py_int_def)
qed

lemma py_int_str_nat: "py_int (str_nat n) = Inr (int n)"
  by (simp add: py_int_digits str_nat_not_Nil str_nat_digits digits_value_str_nat)

lemma py_isnumeric_str_nat: "py_isnumeric (str_nat n)"
  using str_nat_digits [of n]
  by (auto simp: py_isnumeric_def str_nat_not_Nil list_all_iff is_digit_facts)

lemma str_nat_no_comma: "CHR '','' \<notin> set (str_nat n)"
  using str_nat_digits [of n] is_digit_facts(5) by (auto simp: list_all_iff)

lemma str_nat_no_dash: "CHR ''-'' \<notin> set (str_nat n)"
  using str_nat_digits [of n] is_digit_facts(3) by (auto simp: list_all_iff)

lemma dash_not_numeric: "CHR ''-'' \<in> set s \<Longrightarrow> \<not> py_isnumeric s"
proof -
  have "\<not> py_isnumeric_char CHR ''-''"
    by (simp add: py_isnumeric_char_def is_digit_def)
  then show "CHR ''-'' \<in> set s \<Longrightarrow> \<not> py_isnumeric s"
    by (auto simp: py_isnumeric_def list_all_iff)
qed

subsection \<open>Splitting\<close>

lemma split_on_absent: "sep \<notin> set s \<Longrightarrow> split_on sep s = [s]"
  by (induction s) auto

lemma split_on_append:
  "sep \<notin> set a \<Longrightarrow> split_on sep (a @ sep # b) = a # split_on sep b"
  by (induction a) auto

lemma split_on_join_commas:
  "ps \<noteq> [] \<Longrightarrow> \<forall>p\<in>set ps. CHR '','' \<notin> set p \<Longrightarrow> split_on CHR '','' (join_commas ps) = ps"
  by (induction ps rule: join_commas.induct) (auto simp: split_on_absent split_on_append)

lemma extend_all_single: "extend_all [r] = r"
  by (cases r) auto


lemma extend_all_successes: "extend_all (map Inr rs) = Inr (concat rs)"
  by (induction rs) auto

lemma str_int_of_nat: "str_int (int n) = str_nat n"
  by (simp add: str_int_def)

lemma py_slice_to: "s \<le> length xs \<Longrightarrow> e \<le> length xs \<Longrightarrow>
    py_slice xs (int s) (Some (int e)) = take (e - s) (drop s xs)"
  by (simp add: py_slice_def slice_bound_def)

lemma py_slice_from: "s \<le> length xs \<Longrightarrow> py_slice xs (int s) None = drop s xs"
  by (simp add: py_slice_def slice_bound_def)

lemma split_range: "split_on CHR ''-'' (str_nat s @ CHR ''-'' # str_nat e) = [str_nat s, str_nat e]"
  by (simp add: split_on_append split_on_absent str_nat_no_dash)

lemma split_open_range: "split_on CHR ''-'' (str_nat s @ [CHR ''-'']) = [str_nat s, []]"
  by (simp add: split_on_append str_nat_no_dash)

lemma split_no_start: "split_on CHR ''-'' (CHR ''-'' # str_nat e) = [[], str_nat e]"
  by (simp add: split_on_absent str_nat_no_dash)

lemma py_int_empty: "py_int [] = Inl (InvalidLiteral [])"
  by (simp add: py_int_def py_strip_def)

lemma range_branch:
  "CHR '','' \<notin> set (str_nat s @ CHR ''-'' # t)" if "CHR '','' \<notin> set t"
  using that by (simp add: str_nat_no_comma)

subsection \<open>The branches of the parser\<close>

lemma match_single:
  "match_columns_to_indices (str_nat i) col_names =
     (if i < length col_names then Inr [col_names ! i]
      else Inl (ValueError (''Index '' @ str_nat i @ '' out of range for ''
             @ str_nat (length col_names) @ '' columns in input file.'')))"
  by (subst match_columns_to_indices.simps)
     (simp add: str_nat_no_comma py_isnumeric_str_nat py_int_str_nat str_int_of_nat py_index_def)

lemma match_range:
  "match_columns_to_indices (str_nat s @ CHR ''-'' # str_nat e) col_names =
     (if length col_names \<le> s then
        Inl (ValueError (''Start index '' @ str_nat s
               @ '' out of range for input file column indices. ''
               @ str_nat (length col_names) @ '' columns found.''))
      else if length col_names \<le> e then
        Inl (ValueError (''End index '' @ str_nat e @ '' out of range for ''
               @ str_nat (length col_names)
               @ '' columns. If you want to use all remaining columns, use ''
               @ str_nat s @ ''-.''))
      else Inr (take (e - s) (drop s col_names)))"
  by (subst match_columns_to_indices.simps)
     (simp add: str_nat_no_comma dash_not_numeric split_range py_int_str_nat str_int_of_nat
        str_nat_not_Nil py_slice_to)

lemma match_open_range:
  "match_columns_to_indices (str_nat s @ [CHR ''-'']) col_names =
     (if length col_names \<le> s then
        Inl (ValueError (''Start index '' @ str_nat s
               @ '' out of range for input file column indices. ''
               @ str_nat (length col_names) @ '' columns found.''))
      else Inr (drop s col_names))"
  by (subst match_columns_to_indices.simps)
     (simp add: str_nat_no_comma dash_not_numeric split_open_range py_int_str_nat
        str_int_of_nat py_slice_from)

lemma match_no_start:
  "match_columns_to_indices (CHR ''-'' # str_nat e) col_names = Inl (InvalidLiteral [])"
  by (subst match_columns_to_indices.simps)
     (simp add: str_nat_no_comma dash_not_numeric split_on_absent str_nat_no_dash py_int_empty)

lemma match_commas:
  assumes "ps \<noteq> []" and "\<forall>p\<in>set ps. p \<noteq> [] \<and> CHR '','' \<notin> set p"
  shows "match_columns_to_indices (join_commas ps) col_names =
           extend_all (map (\<lambda>p. match_columns_to_indices p col_names) ps)"
proof (cases "CHR '','' \<in> set (join_commas ps)")
  case True
  have "filter (\<lambda>split. split \<noteq> []) ps = ps" using assms(2) by (simp add: filter_id_conv)
  then show ?thesis
    using True assms split_on_join_commas [of ps]
    by (subst match_columns_to_indices.simps) simp
next
  case False
  have "length ps = 1"
  proof (rule ccontr)
    assume "length ps \<noteq> 1"
    then obtain p q qs where "ps = p # q # qs" using assms(1)
      by (cases ps; cases "tl ps") auto
    then show False using False by simp
  qed
  then obtain p where "ps = [p]" by (cases ps) auto
  then show ?thesis
    by (cases "match_columns_to_indices p col_names") simp_all
qed


text \<open>
  C7, as amended. For a header \<open>col_names\<close> of \<open>N\<close> names and indices written in decimal:
  a single index \<open>i < N\<close> yields \<open>[col_names[i]]\<close>; \<open>start-end\<close> with \<open>start < N\<close> and
  \<open>end < N\<close> yields \<open>col_names[start:end]\<close>, end-exclusive (empty when \<open>end \<le> start\<close>);
  \<open>start-\<close> with \<open>start < N\<close> yields \<open>col_names[start:]\<close>; the form \<open>-end\<close> is refused,
  its empty start being no integer; an index, a start or an end that is \<open>\<ge> N\<close> (an end
  equal to \<open>N\<close> included) raises a \<open>ValueError\<close> whose message names \<open>N\<close>; and a
  comma-separated list of expressions yields the concatenation of what its parts yield.
\<close>

theorem match_columns_to_indices_forms:
  "(\<forall>i<length col_names.
      match_columns_to_indices (str_nat i) col_names = Inr [col_names ! i])
   \<and> (\<forall>s e. s < length col_names \<and> e < length col_names \<longrightarrow>
        match_columns_to_indices (str_nat s @ ''-'' @ str_nat e) col_names
          = Inr (take (e - s) (drop s col_names)))
   \<and> (\<forall>s<length col_names.
        match_columns_to_indices (str_nat s @ ''-'') col_names = Inr (drop s col_names))
   \<and> (\<forall>e. match_columns_to_indices (''-'' @ str_nat e) col_names = Inl (InvalidLiteral []))
   \<and> (\<forall>i\<ge>length col_names.
        match_columns_to_indices (str_nat i) col_names
          = Inl (ValueError (''Index '' @ str_nat i @ '' out of range for ''
                   @ str_nat (length col_names) @ '' columns in input file.'')))
   \<and> (\<forall>s e. length col_names \<le> s \<longrightarrow>
        match_columns_to_indices (str_nat s @ ''-'' @ str_nat e) col_names
          = Inl (ValueError (''Start index '' @ str_nat s
                   @ '' out of range for input file column indices. ''
                   @ str_nat (length col_names) @ '' columns found.''))
        \<and> match_columns_to_indices (str_nat s @ ''-'') col_names
          = Inl (ValueError (''Start index '' @ str_nat s
                   @ '' out of range for input file column indices. ''
                   @ str_nat (length col_names) @ '' columns found.'')))
   \<and> (\<forall>s e. s < length col_names \<and> length col_names \<le> e \<longrightarrow>
        match_columns_to_indices (str_nat s @ ''-'' @ str_nat e) col_names
          = Inl (ValueError (''End index '' @ str_nat e @ '' out of range for ''
                   @ str_nat (length col_names)
                   @ '' columns. If you want to use all remaining columns, use ''
                   @ str_nat s @ ''-.'')))
   \<and> (\<forall>ps rs. ps \<noteq> [] \<and> length rs = length ps
          \<and> (\<forall>k<length ps. ps ! k \<noteq> [] \<and> CHR '','' \<notin> set (ps ! k)
                \<and> match_columns_to_indices (ps ! k) col_names = Inr (rs ! k)) \<longrightarrow>
        match_columns_to_indices (join_commas ps) col_names = Inr (concat rs))"
proof (intro conjI allI impI)
  fix ps :: "string list" and rs :: "string list list"
  assume a: "ps \<noteq> [] \<and> length rs = length ps
          \<and> (\<forall>k<length ps. ps ! k \<noteq> [] \<and> CHR '','' \<notin> set (ps ! k)
                \<and> match_columns_to_indices (ps ! k) col_names = Inr (rs ! k))"
  then have parts: "\<forall>p\<in>set ps. p \<noteq> [] \<and> CHR '','' \<notin> set p"
    by (auto simp: in_set_conv_nth)
  have "map (\<lambda>p. match_columns_to_indices p col_names) ps = map Inr rs"
    using a by (intro nth_equalityI) simp_all
  then show "match_columns_to_indices (join_commas ps) col_names = Inr (concat rs)"
    using a parts by (simp add: match_commas extend_all_successes)
qed (simp_all add: match_single match_range match_open_range match_no_start)

theorem match_columns_to_indices_forms_witness:
  "(2::nat) < length [''a'', ''b'', ''c'', ''d'']
   \<and> match_columns_to_indices ''2'' [''a'', ''b'', ''c'', ''d''] = Inr [''c'']
   \<and> (1::nat) < length [''a'', ''b'', ''c'', ''d''] \<and> (3::nat) < length [''a'', ''b'', ''c'', ''d'']
   \<and> match_columns_to_indices ''1-3'' [''a'', ''b'', ''c'', ''d''] = Inr [''b'', ''c'']
   \<and> match_columns_to_indices ''2-'' [''a'', ''b'', ''c'', ''d''] = Inr [''c'', ''d'']
   \<and> match_columns_to_indices ''-2'' [''a'', ''b'', ''c'', ''d''] = Inl (InvalidLiteral [])
   \<and> length [''a'', ''b'', ''c'', ''d''] \<le> (4::nat)
   \<and> match_columns_to_indices ''4'' [''a'', ''b'', ''c'', ''d'']
       = Inl (ValueError ''Index 4 out of range for 4 columns in input file.'')
   \<and> match_columns_to_indices ''5-7'' [''a'', ''b'', ''c'', ''d'']
       = Inl (ValueError
           ''Start index 5 out of range for input file column indices. 4 columns found.'')
   \<and> match_columns_to_indices ''1-4'' [''a'', ''b'', ''c'', ''d'']
       = Inl (ValueError
           ''End index 4 out of range for 4 columns. If you want to use all remaining columns, use 1-.'')
   \<and> match_columns_to_indices ''0,2-'' [''a'', ''b'', ''c'', ''d''] = Inr [''a'', ''c'', ''d'']"
proof -
  let ?cols = "[''a'', ''b'', ''c'', ''d'']"
  note forms = match_columns_to_indices_forms [of ?cols]
  have n: "str_nat 0 = ''0''" "str_nat 1 = ''1''" "str_nat 2 = ''2''" "str_nat 3 = ''3''"
    "str_nat 4 = ''4''" "str_nat 5 = ''5''" "str_nat 7 = ''7''" "str_nat (Suc 0) = ''1''"
    "str_nat (Suc (Suc (Suc (Suc 0)))) = ''4''"
    by (simp_all add: str_nat.simps digit_char_def)
  have single: "match_columns_to_indices ''2'' ?cols = Inr [''c'']"
    and first: "match_columns_to_indices ''0'' ?cols = Inr [''a'']"
    using forms [THEN conjunct1, rule_format, of 2] forms [THEN conjunct1, rule_format, of 0]
    by (simp_all add: n)
  have range: "match_columns_to_indices ''1-3'' ?cols = Inr [''b'', ''c'']"
    using forms [THEN conjunct2, THEN conjunct1, rule_format, of 1 3] by (simp add: n)
  have tail: "match_columns_to_indices ''2-'' ?cols = Inr [''c'', ''d'']"
    using forms [THEN conjunct2, THEN conjunct2, THEN conjunct1, rule_format, of 2]
    by (simp add: n)
  have nostart: "match_columns_to_indices ''-2'' ?cols = Inl (InvalidLiteral [])"
    using forms [THEN conjunct2, THEN conjunct2, THEN conjunct2, THEN conjunct1,
        rule_format, of 2]
    by (simp add: n)
  have high: "match_columns_to_indices ''4'' ?cols
       = Inl (ValueError ''Index 4 out of range for 4 columns in input file.'')"
    using forms [THEN conjunct2, THEN conjunct2, THEN conjunct2, THEN conjunct2,
        THEN conjunct1, rule_format, of 4]
    by (simp add: n)
  have start: "match_columns_to_indices ''5-7'' ?cols
       = Inl (ValueError
           ''Start index 5 out of range for input file column indices. 4 columns found.'')"
    using forms [THEN conjunct2, THEN conjunct2, THEN conjunct2, THEN conjunct2,
        THEN conjunct2, THEN conjunct1, rule_format, of 5 7]
    by (simp add: n)
  have stop: "match_columns_to_indices ''1-4'' ?cols
       = Inl (ValueError
           ''End index 4 out of range for 4 columns. If you want to use all remaining columns, use 1-.'')"
    using forms [THEN conjunct2, THEN conjunct2, THEN conjunct2, THEN conjunct2,
        THEN conjunct2, THEN conjunct2, THEN conjunct1, rule_format, of 1 4]
    by (simp add: n)
  have "\<forall>k<length [''0'', ''2-'']. [''0'', ''2-''] ! k \<noteq> [] \<and> CHR '','' \<notin> set ([''0'', ''2-''] ! k)
          \<and> match_columns_to_indices ([''0'', ''2-''] ! k) ?cols = Inr ([[''a''], [''c'', ''d'']] ! k)"
    using first tail by (simp add: less_Suc_eq)
  then have commas: "match_columns_to_indices ''0,2-'' ?cols = Inr [''a'', ''c'', ''d'']"
    using forms [THEN conjunct2, THEN conjunct2, THEN conjunct2, THEN conjunct2,
        THEN conjunct2, THEN conjunct2, THEN conjunct2, rule_format,
        of "[''0'', ''2-'']" "[[''a''], [''c'', ''d'']]"]
    by simp
  show ?thesis
    using single range tail nostart high start stop commas by simp
qed

text \<open>
  C7 as stated fails on the code: with three columns, \<open>1-3\<close> satisfies
  \<open>0 \<le> start < end \<le> N\<close> but is refused because the end equals \<open>N\<close>, and \<open>-2\<close> is
  refused because its start is empty.
\<close>

theorem match_columns_to_indices_counterexample:
  "match_columns_to_indices ''1-3'' [''a'', ''b'', ''c'']
     = Inl (ValueError
         ''End index 3 out of range for 3 columns. If you want to use all remaining columns, use 1-.'')
   \<and> match_columns_to_indices ''-2'' [''a'', ''b'', ''c''] = Inl (InvalidLiteral [])"
  by code_simp

section \<open>Properties of polars_firth_regression\<close>


lemma polars_firth_regression_constant:
  assumes "item (remdups (dependent_column g)) = Inr dependent"
    and "item (remdups (predictor_column g)) = Inr predictor"
    and "select (feature_columns g) (map Col independents) = Inr X0"
    and "chk X0 independents dependent = Inr non_consts"
    and "select X0 (map Col non_consts) = Inr X"
    and "independents \<noteq> []" and "hd independents \<notin> set (names X)"
  shows "polars_firth_regression chk firth_fit exp_e g independents dependent_values min_cases =
    Inr (\<lparr>pval = NaN, beta = NaN, se = NaN, OR = NaN, ci_low = NaN, ci_high = NaN,
          cases = NaN, controls = NaN, total_n = NaN,
          failed_reason = ''Predictor removed due to constant values''\<rparr>,
         [(WARNING, ''Predictor '' @ predictor
             @ '' was removed due to constant values. Skipping analysis.'')])"
proof -
  obtain primary rest where ind: "independents = primary # rest"
    using assms(6) by (cases independents) auto
  then have "primary \<notin> set (names X)" using assms(7) by simp
  then show ?thesis
    using assms(1-5) ind
    by (simp add: polars_firth_regression_def Let_def)
qed








text \<open>
  C1. A group whose predictor is constant gets \<open>failed_reason = "Predictor removed due to
  constant values"\<close> and missing statistics, but the function returns before it counts: the
  group has two cases, one control and three samples, and its record has \<open>NaN\<close> in
  \<open>cases\<close>, \<open>controls\<close> and \<open>total_n\<close>.
\<close>

theorem polars_firth_regression_constant_predictor_counts:
  "polars_firth_regression nonconstant_columns
      (\<lambda>X y. Inr \<lparr>pvals_0 = 5 :: int, coef_0 = 1, bse_0 = 2, ci_0_0 = 3, ci_0_1 = 4\<rparr>)
      (\<lambda>b. b + 100) constant_group [''P'', ''age''] ''dependent_value'' 20
    = Inr (\<lparr>pval = NaN, beta = NaN, se = NaN, OR = NaN, ci_low = NaN, ci_high = NaN,
            cases = NaN, controls = NaN, total_n = NaN,
            failed_reason = ''Predictor removed due to constant values''\<rparr>,
           [(WARNING, ''Predictor P was removed due to constant values. Skipping analysis.'')])
   \<and> map_of (response_columns constant_group) ''dependent_value'' = Some [1, 0, 1]
   \<and> sum_list [1, 0, 1 :: int] = 2"
  by (simp add: polars_firth_regression_def constant_group_def item_def select_def names_def
      nonconstant_columns_def)

section \<open>Properties of handle_missing\<close>

subsection \<open>Dropping rows\<close>

lemma keep_rows_nths:
  assumes "length c = h"
  shows "keep_rows (map f [0..<h]) c = nths c {i. f i}"
proof -
  have "zip c (map f [0..<h]) = map (\<lambda>(x, i). (x, f i)) (zip c [0..<h])"
    by (simp add: zip_map2)
  then have "filter snd (zip c (map f [0..<h]))
      = map (\<lambda>(x, i). (x, f i)) (filter (\<lambda>(x, i). f i) (zip c [0..<h]))"
    by (simp add: filter_map comp_def case_prod_unfold)
  then have "keep_rows (map f [0..<h]) c = map fst (filter (\<lambda>(x, i). f i) (zip c [0..<h]))"
    by (simp add: keep_rows_def comp_def case_prod_unfold)
  then show ?thesis
    using assms by (simp add: nths_def case_prod_unfold)
qed

lemma null_free_row_iff:
  "null_free_row df ps i \<longleftrightarrow> \<not> (\<exists>p\<in>set ps. \<exists>c. map_of df p = Some c \<and> c ! i = None)"
  by (auto simp: null_free_row_def list_all_iff split: option.splits)

lemma wf_frame_column_length:
  "wf_frame df \<Longrightarrow> (n, c) \<in> set df \<Longrightarrow> length c = height df"
  by (auto simp: wf_frame_def list_all_iff)

lemma drop_nulls_columns:
  assumes "wf_frame df" and "set ps \<subseteq> set (names df)"
  shows "drop_nulls df ps =
    Inr (map (\<lambda>(n, c). (n, nths c {i. \<not> (\<exists>p\<in>set ps. \<exists>c. map_of df p = Some c \<and> c ! i = None)})) df)"
proof -
  have "find (\<lambda>p. p \<notin> set (names df)) ps = None"
    using assms(2) by (auto simp: find_None_iff)
  moreover have "keep_rows (map (null_free_row df ps) [0..<height df]) c
      = nths c {i. \<not> (\<exists>p\<in>set ps. \<exists>c. map_of df p = Some c \<and> c ! i = None)}"
    if "(n, c) \<in> set df" for n c
    using keep_rows_nths [OF wf_frame_column_length [OF assms(1) that], of "null_free_row df ps"]
    by (simp add: null_free_row_iff)
  ultimately show ?thesis
    by (auto simp: drop_nulls_def)
qed

lemma height_map_columns:
  "df \<noteq> [] \<Longrightarrow> height (map (\<lambda>(n, c). (n, g c)) df) = length (g (snd (hd df)))"
  by (cases df) (auto simp: height_def)

lemma height_hd: "df \<noteq> [] \<Longrightarrow> height df = length (snd (hd df))"
  by (cases df) (auto simp: height_def)

lemma card_split_rows:
  "card {i. i < h \<and> i \<in> K} + card {i. i < h \<and> i \<notin> K} = (h::nat)"
proof -
  have "{i. i < h \<and> i \<in> K} \<union> {i. i < h \<and> i \<notin> K} = {..<h}" by auto
  moreover have "{i. i < h \<and> i \<in> K} \<inter> {i. i < h \<and> i \<notin> K} = {}" by auto
  ultimately show ?thesis
    by (metis (no_types, lifting) card_Un_disjoint card_lessThan finite_Un finite_lessThan)
qed


lemma map_of_map_columns:
  "map_of (map (\<lambda>(n, c). (n, g c)) df) p = map_option g (map_of df p)"
  by (induction df) auto

text \<open>
  C5. On a table with at least one predictor listed, all of them columns of the table, the
  drop strategy (\<open>method = None\<close>) keeps of every column the cells of exactly those rows that
  have no null in any listed column, so it removes exactly the rows having a null in at
  least one of them; the number of rows removed is \<open>rows_before - rows_after\<close>, and it is
  this number that the printed line reports (nothing is printed when no row was removed);
  and no listed column of the output holds a null.
\<close>

theorem handle_missing_drop:
  assumes "wf_frame df" and "predictors \<noteq> []" and "set predictors \<subseteq> set (names df)"
  shows "\<exists>new_df printed.
      handle_missing df predictors None = Inr (new_df, printed)
    \<and> new_df = map (\<lambda>(n, c). (n, nths c {i. \<not> (\<exists>p\<in>set predictors. \<exists>cp.
                      map_of df p = Some cp \<and> cp ! i = None)})) df
    \<and> height new_df \<le> height df
    \<and> height df - height new_df
        = card {i. i < height df \<and> (\<exists>p\<in>set predictors. \<exists>cp.
                   map_of df p = Some cp \<and> cp ! i = None)}
    \<and> printed = (if height new_df \<noteq> height df
                  then [''Dropped '' @ str_nat (height df - height new_df)
                          @ '' rows with missing values.'']
                  else [])
    \<and> (\<forall>p\<in>set predictors. \<forall>c. map_of new_df p = Some c \<longrightarrow> None \<notin> set c)"
proof -
  define K where "K = {i. \<not> (\<exists>p\<in>set predictors. \<exists>cp. map_of df p = Some cp \<and> cp ! i = None)}"
  define new_df where "new_df = map (\<lambda>(n, c). (n, nths c K)) df"
  have dropped: "drop_nulls df predictors = Inr new_df"
    using drop_nulls_columns [OF assms(1,3)] by (simp add: new_df_def K_def)
  have "df \<noteq> []" using assms(2,3) by (auto simp: names_def)
  then have "height new_df = length (nths (snd (hd df)) K)"
    and "height df = length (snd (hd df))"
    by (simp_all add: new_df_def height_map_columns height_hd [of df])
  then have h_new: "height new_df = card {i. i < height df \<and> i \<in> K}"
    by (simp add: length_nths)
  have split: "height new_df + card {i. i < height df \<and> i \<notin> K} = height df"
    using card_split_rows [of "height df" K] h_new by simp
  have le: "height new_df \<le> height df" using split by simp
  have diff: "height df - height new_df
      = card {i. i < height df \<and> (\<exists>p\<in>set predictors. \<exists>cp.
                 map_of df p = Some cp \<and> cp ! i = None)}"
    using split by (simp add: K_def)
  have clean: "None \<notin> set c" if "p \<in> set predictors" and "map_of new_df p = Some c" for p c
  proof -
    from that(2) obtain cp where cp: "map_of df p = Some cp" and c: "c = nths cp K"
      by (auto simp: new_df_def map_of_map_columns)
    have "cp ! i \<noteq> None" if "i \<in> K" for i
      using that cp \<open>p \<in> set predictors\<close> by (auto simp: K_def)
    then show ?thesis
      unfolding c set_nths by force
  qed
  have shape: "new_df = map (\<lambda>(n, c). (n, nths c {i. \<not> (\<exists>p\<in>set predictors. \<exists>cp.
                      map_of df p = Some cp \<and> cp ! i = None)})) df"
    by (simp add: new_df_def K_def)
  have result: "handle_missing df predictors None
      = Inr (new_df, if height new_df \<noteq> height df
                     then [''Dropped '' @ str_nat (height df - height new_df)
                             @ '' rows with missing values.'']
                     else [])"
    using dropped by (simp add: handle_missing_def valid_strategies_def)
  have clean_all: "\<forall>p\<in>set predictors. \<forall>c. map_of new_df p = Some c \<longrightarrow> None \<notin> set c"
    using clean by blast
  show ?thesis
    by (intro exI conjI) (rule result, rule shape, rule le, rule diff, rule refl, rule clean_all)
qed

theorem handle_missing_drop_witness:
  "wf_frame example_table \<and> [''age'', ''bmi''] \<noteq> []
   \<and> set [''age'', ''bmi''] \<subseteq> set (names example_table)
   \<and> handle_missing example_table [''age'', ''bmi''] None
       = Inr ([(''age'', [Some 58]), (''bmi'', [Some 27]), (''D'', [Some 1])],
              [''Dropped 2 rows with missing values.''])"
proof -
  have hyps: "wf_frame example_table" "[''age'', ''bmi''] \<noteq> []"
    "set [''age'', ''bmi''] \<subseteq> set (names example_table)"
    by (simp_all add: example_table_def wf_frame_def names_def height_def)
  obtain new_df printed where
    res: "handle_missing example_table [''age'', ''bmi''] None = Inr (new_df, printed)"
    using handle_missing_drop [OF hyps] by blast
  have "handle_missing example_table [''age'', ''bmi''] None
       = Inr ([(''age'', [Some 58]), (''bmi'', [Some 27]), (''D'', [Some 1])],
              [''Dropped 2 rows with missing values.''])"
    by code_simp
  with hyps show ?thesis by simp
qed

subsection \<open>Fill strategies\<close>

text \<open>
  C6. \<open>handle_missing\<close> hands every fill strategy to \<open>fill_null(subset=..., strategy=...)\<close>.
  The dataframe library's \<open>fill_null\<close> takes \<open>value\<close>, \<open>strategy\<close>, \<open>limit\<close> and
  \<open>matches_supertype\<close> and has no parameter \<open>subset\<close> (it is \<open>drop_nulls\<close> that has one), so
  for each of the seven strategies the call raises \<open>TypeError\<close> and no table is returned:
  no null is replaced in any column.
\<close>

theorem handle_missing_fill_raises:
  "list_all (\<lambda>strategy. handle_missing example_table [''age'', ''bmi''] (Some strategy)
                = Inl (TypeError ''subset''))
     [''forward'', ''backward'', ''min'', ''max'', ''mean'', ''zero'', ''one'']"
  by (simp add: handle_missing_def valid_strategies_def fill_null_subset_def)

section \<open>Properties of column selection\<close>



lemma first_duplicate_distinct: "first_duplicate xs = None \<longleftrightarrow> distinct xs"
  by (induction xs) auto

lemma names_map_cols [simp]: "names (map (\<lambda>p. (p, f p)) ps) = ps"
  by (simp add: names_def comp_def)



section \<open>Dropping sex-specific codes\<close>

text \<open>
  With \<open>drop = True\<close> and at least one sex-specific column in the table, the columns named
  in either code list are removed and every other column is returned as it was.
\<close>

lemma handle_sex_specific_codes_drop_columns:
  assumes "distinct (names df)"
    and "\<exists>n\<in>set (names df). n \<in> set male_specific_codes \<union> set female_specific_codes"
  shows "handle_sex_specific_codes male_specific_codes female_specific_codes df True
    = Inr (filter (\<lambda>(n, c). n \<notin> set male_specific_codes \<union> set female_specific_codes) df)"
proof -
  let ?xs = "filter (\<lambda>c. c \<in> set male_specific_codes) (names df)
           @ filter (\<lambda>c. c \<in> set female_specific_codes) (names df)"
  let ?out = "filter (\<lambda>(n, c). n \<notin> set ?xs) df"
  have "?xs \<noteq> []" using assms(2) by (auto simp: filter_empty_conv)
  then obtain x rest where xs: "?xs = x # rest" by (cases ?xs) auto
  have same: "?out = filter (\<lambda>(n, c). n \<notin> set male_specific_codes \<union> set female_specific_codes) df"
    by (rule filter_cong) (force simp: names_def)+
  have "names ?out = filter (\<lambda>n. n \<notin> set ?xs) (names df)"
    by (simp add: names_def filter_map comp_def case_prod_unfold)
  then have "distinct (names ?out)" using assms(1) by simp
  then have "first_duplicate (names ?out) = None" by (simp only: first_duplicate_distinct)
  then have "select df [AllExclude ?xs] = Inr ?out" by (simp add: select_def)
  then show ?thesis
    using xs same
    by (simp add: handle_sex_specific_codes_def exclude_unpacked_def Let_def del: set_append)
qed

text \<open>
  C8. A table that holds no sex-specific column at all should come back unchanged under
  \<open>drop = True\<close>. There both lists of codes found in the table are empty, the call
  \<open>pl.all().exclude(*male_codes_in_df, *female_codes_in_df)\<close> passes no argument, and
  \<open>exclude\<close> raises \<open>TypeError\<close> for its missing parameter \<open>columns\<close>.
\<close>

theorem handle_sex_specific_codes_drop_without_codes:
  "handle_sex_specific_codes [''185'', ''187.2''] [''174.1'', ''182''] example_table True
     = Inl (TypeError ''columns'')"
  by (simp add: handle_sex_specific_codes_def example_table_def names_def exclude_unpacked_def)

section \<open>Properties of filter_by_count\<close>















end
